theory Spec2Isabelle
  imports Complex_Main "HOL-Library.Word" "HOL-Library.FSet"
begin

section \<open>JavaScript numbers\<close>

text \<open>
  The program computes with the \<^verbatim>\<open>number\<close> type of TypeScript. The model keeps the
  special values that decide the control flow of the program (\<^verbatim>\<open>NaN\<close>, \<^verbatim>\<open>Infinity\<close>,
  \<^verbatim>\<open>-Infinity\<close>) and takes every finite number as an exact rational: the rounding of
  a double to 53 bits, overflow to infinity and the sign of zero are not modelled.
  Every comparison with \<^verbatim>\<open>NaN\<close> is false, \<^verbatim>\<open>0/0\<close> is \<^verbatim>\<open>NaN\<close>, and \<^verbatim>\<open>Math.max\<close>,
  \<^verbatim>\<open>Math.min\<close> return \<^verbatim>\<open>NaN\<close> as soon as one argument is \<^verbatim>\<open>NaN\<close>.
\<close>

datatype jsnum = Fin rat | PInf | NInf | NaN

fun js_neg :: "jsnum \<Rightarrow> jsnum" where
  "js_neg (Fin a) = Fin (- a)"
| "js_neg PInf = NInf"
| "js_neg NInf = PInf"
| "js_neg NaN = NaN"

fun js_add :: "jsnum \<Rightarrow> jsnum \<Rightarrow> jsnum" where
  "js_add (Fin a) (Fin b) = Fin (a + b)"
| "js_add NaN _ = NaN"
| "js_add _ NaN = NaN"
| "js_add PInf NInf = NaN"
| "js_add NInf PInf = NaN"
| "js_add PInf _ = PInf"
| "js_add _ PInf = PInf"
| "js_add NInf _ = NInf"
| "js_add _ NInf = NInf"

definition js_sub :: "jsnum \<Rightarrow> jsnum \<Rightarrow> jsnum" where
  "js_sub a b = js_add a (js_neg b)"

text \<open>The infinity with the sign of a product or quotient: positive iff the flag holds.\<close>

definition signed_inf :: "bool \<Rightarrow> jsnum" where
  "signed_inf pos = (if pos then PInf else NInf)"

fun js_mul :: "jsnum \<Rightarrow> jsnum \<Rightarrow> jsnum" where
  "js_mul (Fin a) (Fin b) = Fin (a * b)"
| "js_mul NaN _ = NaN"
| "js_mul _ NaN = NaN"
| "js_mul (Fin a) PInf = (if a = 0 then NaN else signed_inf (0 < a))"
| "js_mul (Fin a) NInf = (if a = 0 then NaN else signed_inf (a < 0))"
| "js_mul PInf (Fin b) = (if b = 0 then NaN else signed_inf (0 < b))"
| "js_mul NInf (Fin b) = (if b = 0 then NaN else signed_inf (b < 0))"
| "js_mul PInf PInf = PInf"
| "js_mul NInf NInf = PInf"
| "js_mul PInf NInf = NInf"
| "js_mul NInf PInf = NInf"

fun js_div :: "jsnum \<Rightarrow> jsnum \<Rightarrow> jsnum" where
  "js_div (Fin a) (Fin b) =
     (if b = 0 then (if a = 0 then NaN else signed_inf (0 < a)) else Fin (a / b))"
| "js_div NaN _ = NaN"
| "js_div _ NaN = NaN"
| "js_div (Fin a) PInf = Fin 0"
| "js_div (Fin a) NInf = Fin 0"
| "js_div PInf (Fin b) = signed_inf (0 \<le> b)"
| "js_div NInf (Fin b) = signed_inf (b < 0)"
| "js_div PInf PInf = NaN"
| "js_div PInf NInf = NaN"
| "js_div NInf PInf = NaN"
| "js_div NInf NInf = NaN"

fun js_lt :: "jsnum \<Rightarrow> jsnum \<Rightarrow> bool" where
  "js_lt (Fin a) (Fin b) = (a < b)"
| "js_lt NaN _ = False"
| "js_lt _ NaN = False"
| "js_lt _ NInf = False"
| "js_lt PInf _ = False"
| "js_lt NInf _ = True"
| "js_lt _ PInf = True"

text \<open>Strict equality \<^verbatim>\<open>===\<close> on numbers: \<^verbatim>\<open>NaN\<close> is not equal to itself.\<close>

definition js_eq :: "jsnum \<Rightarrow> jsnum \<Rightarrow> bool" where
  "js_eq a b = (a \<noteq> NaN \<and> b \<noteq> NaN \<and> a = b)"

definition js_gt :: "jsnum \<Rightarrow> jsnum \<Rightarrow> bool" where
  "js_gt a b = js_lt b a"

definition js_le :: "jsnum \<Rightarrow> jsnum \<Rightarrow> bool" where
  "js_le a b = (js_lt a b \<or> js_eq a b)"

definition js_ge :: "jsnum \<Rightarrow> jsnum \<Rightarrow> bool" where
  "js_ge a b = (js_lt b a \<or> js_eq a b)"

definition Math_max :: "jsnum \<Rightarrow> jsnum \<Rightarrow> jsnum" where
  "Math_max a b = (if a = NaN \<or> b = NaN then NaN else if js_lt a b then b else a)"

definition Math_min :: "jsnum \<Rightarrow> jsnum \<Rightarrow> jsnum" where
  "Math_min a b = (if a = NaN \<or> b = NaN then NaN else if js_lt b a then b else a)"

text \<open>\<^verbatim>\<open>Math.round\<close> rounds to the nearest integer, a half towards plus infinity.\<close>

fun Math_round :: "jsnum \<Rightarrow> jsnum" where
  "Math_round (Fin a) = Fin (of_int \<lfloor>a + 1 / 2\<rfloor>)"
| "Math_round x = x"

fun Math_floor :: "jsnum \<Rightarrow> jsnum" where
  "Math_floor (Fin a) = Fin (of_int \<lfloor>a\<rfloor>)"
| "Math_floor x = x"

section \<open>The platform\<close>

text \<open>
  What the program takes from its runtime and from the hashing library
  (\<^verbatim>\<open>@noble/hashes\<close>), neither of which is code of the repository: the digest, the hex
  decoder (\<open>None\<close> when it throws) and the conversion of a number to a string, used by
  template strings and \<^verbatim>\<open>toString\<close>. A string is the sequence of its UTF-8 bytes.
\<close>

type_synonym bytes = "8 word list"

record platform =
  sha256 :: "bytes \<Rightarrow> bytes"
  hexToBytes :: "string \<Rightarrow> bytes option"
  numToString :: "jsnum \<Rightarrow> string"

section \<open>Score engine\<close>

datatype rating = Poor | Fair | Good | VeryGood | Excellent

record CreditMetrics =
  totalBorrowed :: jsnum
  totalRepaid :: jsnum
  onTimePayments :: jsnum
  latePayments :: jsnum
  defaults :: jsnum
  oldestActivityDays :: jsnum
  uniqueProtocols :: "string fset"
  averageTransactionValue :: jsnum
  totalTransactions :: jsnum
  utilizationHistory :: "jsnum list"

record ComponentScore =
  score :: jsnum
  weighted :: jsnum
  weight :: jsnum
  rating :: rating
  details :: string

record ScoreBreakdown =
  paymentHistory :: ComponentScore
  creditUtilization :: ComponentScore
  accountHistory :: ComponentScore
  protocolDiversity :: ComponentScore
  recentActivity :: ComponentScore

datatype priority = high | medium | low

record Recommendation =
  title :: string
  description :: string
  icon :: string
  impact :: "jsnum option"
  priority :: priority

datatype trend = up | down | stable

record CreditScoreResult =
  score :: jsnum
  tier :: rating
  breakdown :: ScoreBreakdown
  recommendations :: "Recommendation list"
  trend :: "trend option"
  lastUpdated :: jsnum

subsection \<open>Constants (src/frontend/lib/constants.ts)\<close>

definition CREDIT_SCORE_MIN :: jsnum where "CREDIT_SCORE_MIN = Fin 300"
definition CREDIT_SCORE_MAX :: jsnum where "CREDIT_SCORE_MAX = Fin 850"

definition WEIGHTS_paymentHistory :: jsnum where "WEIGHTS_paymentHistory = Fin 35"
definition WEIGHTS_creditUtilization :: jsnum where "WEIGHTS_creditUtilization = Fin 30"
definition WEIGHTS_accountHistory :: jsnum where "WEIGHTS_accountHistory = Fin 15"
definition WEIGHTS_protocolDiversity :: jsnum where "WEIGHTS_protocolDiversity = Fin 10"
definition WEIGHTS_recentActivity :: jsnum where "WEIGHTS_recentActivity = Fin 10"

definition CREDIT_TIERS_EXCELLENT_min :: jsnum where "CREDIT_TIERS_EXCELLENT_min = Fin 800"
definition CREDIT_TIERS_VERY_GOOD_min :: jsnum where "CREDIT_TIERS_VERY_GOOD_min = Fin 740"
definition CREDIT_TIERS_GOOD_min :: jsnum where "CREDIT_TIERS_GOOD_min = Fin 670"
definition CREDIT_TIERS_FAIR_min :: jsnum where "CREDIT_TIERS_FAIR_min = Fin 580"

text \<open>The tail every component function ends with: the score, its weighted share, the weight.\<close>

definition component :: "jsnum \<Rightarrow> jsnum \<Rightarrow> rating \<Rightarrow> string \<Rightarrow> ComponentScore" where
  "component s w r d =
     \<lparr> ComponentScore.score = s, weighted = js_mul (js_div s (Fin 100)) w,
       weight = w, rating = r, details = d \<rparr>"

subsection \<open>Component scores (src/unnamed/part_000)\<close>

definition calculatePaymentHistoryScore :: "platform \<Rightarrow> CreditMetrics \<Rightarrow> ComponentScore" where
  "calculatePaymentHistoryScore P metrics =
     (let totalPayments =
            js_add (js_add (onTimePayments metrics) (latePayments metrics)) (defaults metrics)
      in if js_eq totalPayments (Fin 0) then
           component (Fin 50) WEIGHTS_paymentHistory Fair
             ''No repayment history yet. Make some loan repayments to build credit.''
         else
           let onTimeRate = js_div (onTimePayments metrics) totalPayments;
               defaultPenalty = js_mul (defaults metrics) (Fin 15);
               latePenalty = js_mul (latePayments metrics) (Fin 5);
               s = Math_max (Fin 0)
                     (js_sub (js_sub (js_mul onTimeRate (Fin 100)) defaultPenalty) latePenalty)
           in if js_ge s (Fin 90) then
                component s WEIGHTS_paymentHistory Excellent
                  (numToString P (onTimePayments metrics) @ '' of '' @
                   numToString P totalPayments @ '' payments on time ('' @
                   numToString P (Math_round (js_mul onTimeRate (Fin 100))) @ ''%)'')
              else if js_ge s (Fin 75) then
                component s WEIGHTS_paymentHistory VeryGood
                  (''Good payment history with '' @ numToString P (onTimePayments metrics) @
                   '' on-time payments'')
              else if js_ge s (Fin 60) then
                component s WEIGHTS_paymentHistory Good
                  (numToString P (latePayments metrics) @
                   '' late payment(s) affecting your score'')
              else if js_ge s (Fin 40) then
                component s WEIGHTS_paymentHistory Fair
                  ''Multiple late payments. Focus on making payments on time.''
              else
                component s WEIGHTS_paymentHistory Poor
                  (''Payment history needs improvement. '' @
                   numToString P (defaults metrics) @ '' default(s) recorded.''))"

text \<open>The percentage every utilization message prints.\<close>

definition utilization_percent :: "platform \<Rightarrow> jsnum \<Rightarrow> string" where
  "utilization_percent P utilization =
     numToString P (Math_round (js_mul utilization (Fin 100)))"

definition calculateUtilizationScore :: "platform \<Rightarrow> CreditMetrics \<Rightarrow> ComponentScore" where
  "calculateUtilizationScore P metrics =
     (if js_eq (totalBorrowed metrics) (Fin 0) then
        component (Fin 70) WEIGHTS_creditUtilization Good
          ''No borrowing history. Consider taking a small loan to build credit.''
      else
        let currentDebt = Math_max (Fin 0) (js_sub (totalBorrowed metrics) (totalRepaid metrics));
            utilization = js_div currentDebt (totalBorrowed metrics);
            pct = utilization_percent P utilization
        in if js_le utilization (Fin (1 / 10)) then
             component (Fin 95) WEIGHTS_creditUtilization Excellent
               (''Very low utilization ('' @ pct @ ''%). Great debt management!'')
           else if js_le utilization (Fin (3 / 10)) then
             component (Fin 90) WEIGHTS_creditUtilization Excellent
               (''Optimal utilization ('' @ pct @ ''%). Keep it up!'')
           else if js_le utilization (Fin (5 / 10)) then
             component (Fin 75) WEIGHTS_creditUtilization Good
               (''Moderate utilization ('' @ pct @ ''%). Consider paying down some debt.'')
           else if js_le utilization (Fin (7 / 10)) then
             component (Fin 50) WEIGHTS_creditUtilization Fair
               (''High utilization ('' @ pct @ ''%). Try to reduce outstanding debt.'')
           else if js_le utilization (Fin (9 / 10)) then
             component (Fin 30) WEIGHTS_creditUtilization Poor
               (''Very high utilization ('' @ pct @ ''%). Prioritize debt repayment.'')
           else
             component (Fin 10) WEIGHTS_creditUtilization Poor
               (''Critical utilization ('' @ pct @ ''%). Immediate action needed.''))"

definition calculateAccountHistoryScore :: "platform \<Rightarrow> CreditMetrics \<Rightarrow> ComponentScore" where
  "calculateAccountHistoryScore P metrics =
     (let days = oldestActivityDays metrics;
          months = numToString P (Math_round (js_div days (Fin 30)))
      in if js_eq days (Fin 0) then
           component (Fin 20) WEIGHTS_accountHistory Poor
             ''New account. Credit history will improve with time.''
         else if js_lt days (Fin 30) then
           component (Fin 30) WEIGHTS_accountHistory Poor
             (''Account is '' @ numToString P days @ '' days old. Keep building history!'')
         else if js_lt days (Fin 90) then
           component (Fin 50) WEIGHTS_accountHistory Fair
             (months @ '' months of history. Growing nicely!'')
         else if js_lt days (Fin 180) then
           component (Fin 65) WEIGHTS_accountHistory Good
             (months @ '' months of established history.'')
         else if js_lt days (Fin 365) then
           component (Fin 80) WEIGHTS_accountHistory VeryGood
             (months @ '' months of solid history.'')
         else
           component (Fin 95) WEIGHTS_accountHistory Excellent
             (numToString P (Math_round (js_div days (Fin 365))) @
              '' year(s) of credit history. Excellent!''))"

text \<open>\<^verbatim>\<open>uniqueProtocols.size\<close> is a natural number, so it is compared as one.\<close>

definition calculateDiversityScore :: "platform \<Rightarrow> CreditMetrics \<Rightarrow> ComponentScore" where
  "calculateDiversityScore P metrics =
     (let protocolCount = fcard (uniqueProtocols metrics);
          n = numToString P (Fin (of_nat protocolCount))
      in if protocolCount = 0 then
           component (Fin 20) WEIGHTS_protocolDiversity Poor
             ''No protocol activity yet. Try different DeFi platforms.''
         else if protocolCount = 1 then
           component (Fin 40) WEIGHTS_protocolDiversity Fair
             ''1 protocol used. Diversifying can improve your score.''
         else if protocolCount \<le> 3 then
           component (Fin 60) WEIGHTS_protocolDiversity Good
             (n @ '' protocols used. Good diversification!'')
         else if protocolCount \<le> 5 then
           component (Fin 80) WEIGHTS_protocolDiversity VeryGood
             (n @ '' protocols used. Well diversified!'')
         else
           component (Fin 95) WEIGHTS_protocolDiversity Excellent
             (n @ '' protocols used. Excellent diversification!''))"

definition calculateActivityScore :: "platform \<Rightarrow> CreditMetrics \<Rightarrow> ComponentScore" where
  "calculateActivityScore P metrics =
     (if js_eq (totalTransactions metrics) (Fin 0) then
        component (Fin 20) WEIGHTS_recentActivity Poor
          ''No transaction activity. Start using DeFi to build credit.''
      else
        let months = Math_max (Fin 1) (js_div (oldestActivityDays metrics) (Fin 30));
            txPerMonth = js_div (totalTransactions metrics) months;
            activityScore =
              (if js_ge txPerMonth (Fin 20) then Fin 95
               else if js_ge txPerMonth (Fin 10) then Fin 85
               else if js_ge txPerMonth (Fin 5) then Fin 70
               else if js_ge txPerMonth (Fin 2) then Fin 50
               else Fin 30);
            valueBonus = Math_min (Fin 10) (js_div (averageTransactionValue metrics) (Fin 100));
            s = Math_min (Fin 100) (js_add activityScore valueBonus);
            tx = numToString P (totalTransactions metrics);
            rate = numToString P (Math_round txPerMonth)
        in if js_ge s (Fin 85) then
             component s WEIGHTS_recentActivity Excellent
               (tx @ '' transactions (~'' @ rate @ ''/month). Very active!'')
           else if js_ge s (Fin 70) then
             component s WEIGHTS_recentActivity VeryGood
               (tx @ '' transactions (~'' @ rate @ ''/month). Good activity!'')
           else if js_ge s (Fin 50) then
             component s WEIGHTS_recentActivity Good
               (tx @ '' transactions. Consider more frequent activity.'')
           else if js_ge s (Fin 30) then
             component s WEIGHTS_recentActivity Fair
               (''Limited activity ('' @ tx @ '' transactions). Be more active.'')
           else
             component s WEIGHTS_recentActivity Poor
               ''Very low activity. Increase DeFi usage to improve.'')"

subsection \<open>Tier, recommendations and the total\<close>

definition getTierFromScore :: "jsnum \<Rightarrow> rating" where
  "getTierFromScore s =
     (if js_ge s CREDIT_TIERS_EXCELLENT_min then Excellent
      else if js_ge s CREDIT_TIERS_VERY_GOOD_min then VeryGood
      else if js_ge s CREDIT_TIERS_GOOD_min then Good
      else if js_ge s CREDIT_TIERS_FAIR_min then Fair
      else Poor)"

fun priorityOrder :: "priority \<Rightarrow> nat" where
  "priorityOrder high = 0"
| "priorityOrder medium = 1"
| "priorityOrder low = 2"

text \<open>
  The icons are emoji; each is written as the bytes of its UTF-8 encoding
  (U+1F4B3, U+1F4C9, U+1F4C5, U+1F500, U+26A1).
\<close>

definition rec_payment :: Recommendation where
  "rec_payment =
     \<lparr> title = ''Improve Payment History'',
       description = ''Focus on making all loan repayments on time to boost your score.'',
       icon = [CHR 0xF0, CHR 0x9F, CHR 0x92, CHR 0xB3],
       impact = Some (Fin 25), priority = high \<rparr>"

definition rec_utilization :: Recommendation where
  "rec_utilization =
     \<lparr> title = ''Reduce Credit Utilization'',
       description =
         ''Pay down some of your outstanding debt to lower your utilization ratio.'',
       icon = [CHR 0xF0, CHR 0x9F, CHR 0x93, CHR 0x89],
       impact = Some (Fin 20), priority = high \<rparr>"

definition rec_history :: Recommendation where
  "rec_history =
     \<lparr> title = ''Build Account History'',
       description = ''Keep your accounts active over time. History improves naturally.'',
       icon = [CHR 0xF0, CHR 0x9F, CHR 0x93, CHR 0x85],
       impact = Some (Fin 10), priority = low \<rparr>"

definition rec_diversity :: Recommendation where
  "rec_diversity =
     \<lparr> title = ''Diversify Protocol Usage'',
       description =
         ''Try using different DeFi protocols to diversify your credit profile.'',
       icon = [CHR 0xF0, CHR 0x9F, CHR 0x94, CHR 0x80],
       impact = Some (Fin 8), priority = medium \<rparr>"

definition rec_activity :: Recommendation where
  "rec_activity =
     \<lparr> title = ''Increase Activity'',
       description = ''More frequent DeFi transactions can help improve your score.'',
       icon = [CHR 0xE2, CHR 0x9A, CHR 0xA1],
       impact = Some (Fin 8), priority = medium \<rparr>"

text \<open>
  \<^verbatim>\<open>Array.prototype.sort\<close> is stable, as is \<open>sort_key\<close>; \<^verbatim>\<open>slice(0, 5)\<close> keeps the
  first five.
\<close>

definition generateRecommendations :: "ScoreBreakdown \<Rightarrow> Recommendation list" where
  "generateRecommendations b =
     (let recs =
            (if js_lt (ComponentScore.score (paymentHistory b)) (Fin 70)
             then [rec_payment] else []) @
            (if js_lt (ComponentScore.score (creditUtilization b)) (Fin 70)
             then [rec_utilization] else []) @
            (if js_lt (ComponentScore.score (accountHistory b)) (Fin 50)
             then [rec_history] else []) @
            (if js_lt (ComponentScore.score (protocolDiversity b)) (Fin 60)
             then [rec_diversity] else []) @
            (if js_lt (ComponentScore.score (recentActivity b)) (Fin 50)
             then [rec_activity] else [])
      in take 5 (sort_key (\<lambda>r. priorityOrder (priority r)) recs))"

text \<open>The weighted total, the raw score and the score, as \<^verbatim>\<open>calculateCreditScore\<close> computes them.\<close>

definition totalWeighted :: "ScoreBreakdown \<Rightarrow> jsnum" where
  "totalWeighted b =
     js_add (js_add (js_add (js_add
       (weighted (paymentHistory b))
       (weighted (creditUtilization b)))
       (weighted (accountHistory b)))
       (weighted (protocolDiversity b)))
       (weighted (recentActivity b))"

definition rawScore :: "jsnum \<Rightarrow> jsnum" where
  "rawScore tw =
     js_add CREDIT_SCORE_MIN
       (js_mul (js_div tw (Fin 100)) (js_sub CREDIT_SCORE_MAX CREDIT_SCORE_MIN))"

definition scoreBreakdown :: "platform \<Rightarrow> CreditMetrics \<Rightarrow> ScoreBreakdown" where
  "scoreBreakdown P metrics =
     \<lparr> paymentHistory = calculatePaymentHistoryScore P metrics,
       creditUtilization = calculateUtilizationScore P metrics,
       accountHistory = calculateAccountHistoryScore P metrics,
       protocolDiversity = calculateDiversityScore P metrics,
       recentActivity = calculateActivityScore P metrics \<rparr>"

text \<open>\<open>now\<close> is what \<^verbatim>\<open>Date.now()\<close> returns during the call, in milliseconds.\<close>

definition calculateCreditScore :: "platform \<Rightarrow> int \<Rightarrow> CreditMetrics \<Rightarrow> CreditScoreResult" where
  "calculateCreditScore P now metrics =
     (let b = scoreBreakdown P metrics;
          raw = rawScore (totalWeighted b);
          s = Math_round (Math_min CREDIT_SCORE_MAX (Math_max CREDIT_SCORE_MIN raw))
      in \<lparr> CreditScoreResult.score = s, tier = getTierFromScore s, breakdown = b,
           recommendations = generateRecommendations b,
           trend = Some stable, lastUpdated = Fin (of_int now) \<rparr>)"

section \<open>Commitments and proofs (src/frontend/lib/zkProof.ts)\<close>

record ProofInputs =
  score :: jsnum
  salt :: string
  commitment :: string
  minScore :: jsnum
  poolId :: string
  nonce :: jsnum

record GeneratedProof =
  proofHex :: string
  publicInputs :: "string list"
  commitment :: string
  timestamp :: jsnum
  expiresAt :: jsnum

record DTIProofInputs =
  monthlyIncome :: jsnum
  monthlyDebt :: jsnum
  incomeSalt :: string
  debtSalt :: string
  incomeCommitment :: string
  debtCommitment :: string
  maxDTI :: jsnum
  poolId :: string
  nonce :: jsnum

record PaymentHistoryProofInputs =
  onTimePayments :: jsnum
  totalPayments :: jsnum
  historySalt :: string
  historyCommitment :: string
  minPaymentRate :: jsnum
  minPaymentCount :: jsnum
  poolId :: string
  nonce :: jsnum

record CreditworthyProofInputs = ProofInputs +
  monthlyIncome :: jsnum
  monthlyDebt :: jsnum
  onTimePayments :: jsnum
  totalPayments :: jsnum
  maxDTI :: jsnum
  minPaymentRate :: jsnum
  minPaymentCount :: jsnum

text \<open>
  Every \<^verbatim>\<open>throw\<close> of the module is one constructor, named after what it reports:
  \<^item> \<open>ScoreOutOfRange\<close>: "Score must be between 300 and 850" (\<^verbatim>\<open>createCommitment\<close>);
  \<^item> \<open>InvalidHex\<close>: what \<^verbatim>\<open>hexToBytes\<close> throws on a string it rejects;
  \<^item> \<open>CommitmentMismatch\<close>: "Commitment verification failed - score/salt mismatch";
  \<^item> \<open>ScoreBelowThreshold score minScore\<close>: "Score ... does not meet minimum threshold ...";
  \<^item> \<open>InvalidScoreRange\<close>: "Invalid score range";
  \<^item> \<open>DTIExceedsMaximum dtiRatio maxDTI\<close>: "DTI ratio ...% exceeds maximum ...%";
  \<^item> \<open>PaymentRateBelowMinimum paymentRate minPaymentRate\<close>: "Payment rate ...% below minimum ...%";
  \<^item> \<open>TooFewPayments totalPayments minPaymentCount\<close>: "Only ... payments, minimum ... required";
  \<^item> \<open>CreditworthyScoreBelowMinimum score minScore\<close>: "Score ... below minimum ...";
  \<^item> \<open>CreditworthyDTIExceedsMaximum\<close>: "DTI ratio exceeds maximum";
  \<^item> \<open>CreditworthyPaymentRateBelowMinimum\<close>: "Payment rate below minimum".
\<close>

datatype error =
    ScoreOutOfRange
  | InvalidHex
  | CommitmentMismatch
  | ScoreBelowThreshold jsnum jsnum
  | InvalidScoreRange
  | DTIExceedsMaximum jsnum jsnum
  | PaymentRateBelowMinimum jsnum jsnum
  | TooFewPayments jsnum jsnum
  | CreditworthyScoreBelowMinimum jsnum jsnum
  | CreditworthyDTIExceedsMaximum
  | CreditworthyPaymentRateBelowMinimum

subsection \<open>Bytes and text\<close>

definition hexDigit :: "nat \<Rightarrow> char" where
  "hexDigit n = ''0123456789abcdef'' ! (n mod 16)"

definition bytesToHex :: "bytes \<Rightarrow> string" where
  "bytesToHex bs = concat (map (\<lambda>b. [hexDigit (unat b div 16), hexDigit (unat b mod 16)]) bs)"

text \<open>\<^verbatim>\<open>new TextEncoder().encode\<close>: the UTF-8 bytes of the string.\<close>

definition utf8_encode :: "string \<Rightarrow> bytes" where
  "utf8_encode s = map of_char s"

text \<open>
  \<^verbatim>\<open>DataView.setUint32(0, score, false)\<close> on a fresh four-byte buffer: the number is
  converted as \<^verbatim>\<open>ToUint32\<close> does (\<^verbatim>\<open>NaN\<close> and the infinities to 0, any other number
  truncated towards zero and reduced modulo \<open>2^32\<close>) and stored big-endian.
\<close>

fun toUint32 :: "jsnum \<Rightarrow> nat" where
  "toUint32 (Fin a) = nat ((if 0 \<le> a then \<lfloor>a\<rfloor> else \<lceil>a\<rceil>) mod 2 ^ 32)"
| "toUint32 x = 0"

definition uint32Bytes :: "jsnum \<Rightarrow> bytes" where
  "uint32Bytes x =
     (let n = toUint32 x
      in [of_nat (n div 2 ^ 24), of_nat (n div 2 ^ 16), of_nat (n div 2 ^ 8), of_nat n])"

text \<open>
  \<^verbatim>\<open>JSON.stringify\<close> of the proof objects: the keys in insertion order, every value a
  string of hex digits or a fixed tag, so that nothing is escaped.
\<close>

definition json_string :: "string \<Rightarrow> string" where
  "json_string s = [CHR 0x22] @ s @ [CHR 0x22]"

definition json_field :: "string \<Rightarrow> string \<Rightarrow> string" where
  "json_field k v = json_string k @ '':'' @ v"

fun join :: "string \<Rightarrow> string list \<Rightarrow> string" where
  "join sep [] = []"
| "join sep [x] = x"
| "join sep (x # y # ys) = x @ sep @ join sep (y # ys)"

definition json_object :: "(string \<times> string) list \<Rightarrow> string" where
  "json_object kvs = ''{'' @ join '','' (map (\<lambda>(k, v). json_field k v) kvs) @ ''}''"

definition json_array :: "string list \<Rightarrow> string" where
  "json_array vs = ''['' @ join '','' vs @ '']''"

subsection \<open>Commitment\<close>

definition createCommitment :: "platform \<Rightarrow> jsnum \<Rightarrow> string \<Rightarrow> error + string" where
  "createCommitment P s slt =
     (if js_lt s (Fin 300) \<or> js_gt s (Fin 850) then Inl ScoreOutOfRange
      else
        let scoreBytes = uint32Bytes s
        in case hexToBytes P slt of
             None \<Rightarrow> Inl InvalidHex
           | Some saltBytes \<Rightarrow> Inr (bytesToHex (sha256 P (scoreBytes @ saltBytes))))"

text \<open>The \<^verbatim>\<open>try\<close>/\<^verbatim>\<open>catch\<close> turns every error of \<^verbatim>\<open>createCommitment\<close> into \<^verbatim>\<open>false\<close>.\<close>

definition verifyCommitment :: "platform \<Rightarrow> jsnum \<Rightarrow> string \<Rightarrow> string \<Rightarrow> bool" where
  "verifyCommitment P s slt c =
     (case createCommitment P s slt of
        Inr computed \<Rightarrow> computed = c
      | Inl e \<Rightarrow> False)"

subsection \<open>Proof generation\<close>

definition generateProofElement :: "platform \<Rightarrow> jsnum \<Rightarrow> string \<Rightarrow> string \<Rightarrow> string" where
  "generateProofElement P s slt suffix =
     bytesToHex (sha256 P (utf8_encode (numToString P s @ ''-'' @ slt @ ''-'' @ suffix)))"

definition proofData :: "string \<Rightarrow> string \<Rightarrow> string \<Rightarrow> string \<Rightarrow> (string \<times> string) list" where
  "proofData a b c circuit =
     [(''pi_a'', json_string a), (''pi_b'', json_string b), (''pi_c'', json_string c),
      (''protocol'', json_string ''noir''), (''circuit'', json_string circuit)]"

definition serializeProofData :: "(string \<times> string) list \<Rightarrow> string" where
  "serializeProofData d = bytesToHex (utf8_encode (json_object d))"

text \<open>The awaited timers only delay the result; they are not part of the model.\<close>

definition generateZKProof :: "platform \<Rightarrow> ProofInputs \<Rightarrow> error + string" where
  "generateZKProof P inputs =
     (if \<not> verifyCommitment P (ProofInputs.score inputs) (salt inputs)
             (ProofInputs.commitment inputs)
      then Inl CommitmentMismatch
      else if js_lt (ProofInputs.score inputs) (minScore inputs)
      then Inl (ScoreBelowThreshold (ProofInputs.score inputs) (minScore inputs))
      else if js_lt (ProofInputs.score inputs) (Fin 300) \<or>
              js_gt (ProofInputs.score inputs) (Fin 850)
      then Inl InvalidScoreRange
      else Inr (serializeProofData (proofData
             (generateProofElement P (ProofInputs.score inputs) (salt inputs) ''a'')
             (generateProofElement P (ProofInputs.score inputs) (salt inputs) ''b'')
             (generateProofElement P (ProofInputs.score inputs) (salt inputs) ''c'')
             ''prove_score_threshold'')))"

text \<open>\<open>now\<close> is what \<^verbatim>\<open>Date.now()\<close> returns once the proof string is there.\<close>

definition generateCompleteProof :: "platform \<Rightarrow> int \<Rightarrow> ProofInputs \<Rightarrow> error + GeneratedProof" where
  "generateCompleteProof P now inputs =
     (case generateZKProof P inputs of
        Inl e \<Rightarrow> Inl e
      | Inr prf \<Rightarrow>
          Inr \<lparr> proofHex = prf,
                publicInputs =
                  [ProofInputs.commitment inputs,
                   numToString P (minScore inputs),
                   ProofInputs.poolId inputs,
                   numToString P (ProofInputs.nonce inputs),
                   numToString P (Math_floor (js_div (Fin (of_int now)) (Fin 1000)))],
                commitment = ProofInputs.commitment inputs,
                timestamp = Fin (of_int now),
                expiresAt = js_add (Fin (of_int now))
                             (js_mul (js_mul (Fin 60) (Fin 60)) (Fin 1000)) \<rparr>)"

definition isProofExpired :: "int \<Rightarrow> GeneratedProof \<Rightarrow> bool" where
  "isProofExpired now prf = js_gt (Fin (of_int now)) (expiresAt prf)"

definition generateDTIProof :: "platform \<Rightarrow> DTIProofInputs \<Rightarrow> error + string" where
  "generateDTIProof P inputs =
     (let dtiRatio =
            js_mul (js_div (DTIProofInputs.monthlyDebt inputs)
                           (DTIProofInputs.monthlyIncome inputs)) (Fin 10000)
      in if js_gt dtiRatio (DTIProofInputs.maxDTI inputs)
         then Inl (DTIExceedsMaximum dtiRatio (DTIProofInputs.maxDTI inputs))
         else Inr (serializeProofData (proofData
                (generateProofElement P (DTIProofInputs.monthlyIncome inputs)
                   (incomeSalt inputs) ''dti-a'')
                (generateProofElement P (DTIProofInputs.monthlyDebt inputs)
                   (debtSalt inputs) ''dti-b'')
                (generateProofElement P
                   (js_add (DTIProofInputs.monthlyIncome inputs)
                           (DTIProofInputs.monthlyDebt inputs))
                   (incomeSalt inputs) ''dti-c'')
                ''prove_dti_ratio'')))"

definition generatePaymentHistoryProof ::
  "platform \<Rightarrow> PaymentHistoryProofInputs \<Rightarrow> error + string" where
  "generatePaymentHistoryProof P inputs =
     (let paymentRate =
            js_mul (js_div (PaymentHistoryProofInputs.onTimePayments inputs)
                           (PaymentHistoryProofInputs.totalPayments inputs)) (Fin 10000)
      in if js_lt paymentRate (PaymentHistoryProofInputs.minPaymentRate inputs)
         then Inl (PaymentRateBelowMinimum paymentRate
                     (PaymentHistoryProofInputs.minPaymentRate inputs))
         else if js_lt (PaymentHistoryProofInputs.totalPayments inputs)
                       (PaymentHistoryProofInputs.minPaymentCount inputs)
         then Inl (TooFewPayments (PaymentHistoryProofInputs.totalPayments inputs)
                     (PaymentHistoryProofInputs.minPaymentCount inputs))
         else Inr (serializeProofData (proofData
                (generateProofElement P (PaymentHistoryProofInputs.onTimePayments inputs)
                   (historySalt inputs) ''payment-a'')
                (generateProofElement P (PaymentHistoryProofInputs.totalPayments inputs)
                   (historySalt inputs) ''payment-b'')
                (generateProofElement P
                   (js_add (PaymentHistoryProofInputs.onTimePayments inputs)
                           (PaymentHistoryProofInputs.totalPayments inputs))
                   (historySalt inputs) ''payment-c'')
                ''prove_payment_history'')))"

definition generateCreditworthyProof ::
  "platform \<Rightarrow> int \<Rightarrow> CreditworthyProofInputs \<Rightarrow> error + GeneratedProof" where
  "generateCreditworthyProof P now inputs =
     (if js_lt (ProofInputs.score inputs) (minScore inputs)
      then Inl (CreditworthyScoreBelowMinimum (ProofInputs.score inputs) (minScore inputs))
      else
        let dtiRatio = js_mul (js_div (monthlyDebt inputs) (monthlyIncome inputs)) (Fin 10000)
        in if js_gt dtiRatio (maxDTI inputs) then Inl CreditworthyDTIExceedsMaximum
           else
             let paymentRate =
                   js_mul (js_div (onTimePayments inputs) (totalPayments inputs)) (Fin 10000)
             in if js_lt paymentRate (minPaymentRate inputs)
                then Inl CreditworthyPaymentRateBelowMinimum
                else
                  let masterProofData =
                        proofData
                          (generateProofElement P (ProofInputs.score inputs) (salt inputs)
                             ''master-a'')
                          (generateProofElement P (monthlyIncome inputs) (salt inputs)
                             ''master-b'')
                          (generateProofElement P (onTimePayments inputs) (salt inputs)
                             ''master-c'')
                          ''prove_creditworthy'' @
                        [(''checks'', json_array
                            [json_string ''score'', json_string ''dti'',
                             json_string ''payment_history''])]
                  in Inr \<lparr> proofHex = serializeProofData masterProofData,
                           publicInputs =
                             [ProofInputs.commitment inputs,
                              numToString P (minScore inputs),
                              numToString P (maxDTI inputs),
                              numToString P (minPaymentRate inputs),
                              ProofInputs.poolId inputs,
                              numToString P (ProofInputs.nonce inputs)],
                           commitment = ProofInputs.commitment inputs,
                           timestamp = Fin (of_int now),
                           expiresAt = js_add (Fin (of_int now))
                             (js_mul (js_mul (Fin 60) (Fin 60)) (Fin 1000)) \<rparr>)"

section \<open>The second payment-history function (src/frontend/lib/creditScore.ts)\<close>

text \<open>
  This file has a function of the same name. Its results carry a score and a rating, and
  a \<^verbatim>\<open>details\<close> string on one path only; \<^verbatim>\<open>weighted\<close> and \<^verbatim>\<open>weight\<close> are never set.
\<close>

record ComponentScoreLib =
  score :: jsnum
  rating :: rating
  details :: "string option"

definition calculatePaymentHistoryScore_lib :: "CreditMetrics \<Rightarrow> ComponentScoreLib" where
  "calculatePaymentHistoryScore_lib metrics =
     (let totalPayments =
            js_add (CreditMetrics.onTimePayments metrics) (latePayments metrics)
      in if js_eq totalPayments (Fin 0) then
           \<lparr> score = Fin 50, rating = Fair, details = Some ''No repayment history yet'' \<rparr>
         else
           let onTimeRate = js_div (CreditMetrics.onTimePayments metrics) totalPayments
           in if js_ge onTimeRate (Fin (98 / 100)) then
                \<lparr> score = Fin 100, rating = Excellent, details = None \<rparr>
              else if js_ge onTimeRate (Fin (95 / 100)) then
                \<lparr> score = Fin 90, rating = Good, details = None \<rparr>
              else if js_ge onTimeRate (Fin (90 / 100)) then
                \<lparr> score = Fin 70, rating = Fair, details = None \<rparr>
              else
                \<lparr> score = Math_max (Fin 20) (js_mul onTimeRate (Fin 100)),
                  rating = Poor, details = None \<rparr>)"

subsection \<open>The payment-history policy as the specification words it\<close>

text \<open>
  No payments at all give 50, rated Fair. Otherwise the score is
  \<open>max(0, onTimeRate * 100 - defaults * 15 - latePayments * 5)\<close>, rated Excellent from 90,
  Very Good from 75, Good from 60, Fair from 40 and Poor below.
\<close>

definition policy_rating :: "jsnum \<Rightarrow> rating" where
  "policy_rating s =
     (if js_ge s (Fin 90) then Excellent
      else if js_ge s (Fin 75) then VeryGood
      else if js_ge s (Fin 60) then Good
      else if js_ge s (Fin 40) then Fair
      else Poor)"

definition policy_score :: "jsnum \<Rightarrow> jsnum \<Rightarrow> jsnum \<Rightarrow> jsnum" where
  "policy_score onTime late dflt =
     (let n = js_add (js_add onTime late) dflt
      in Math_max (Fin 0)
           (js_sub (js_sub (js_mul (js_div onTime n) (Fin 100)) (js_mul dflt (Fin 15)))
                   (js_mul late (Fin 5))))"

definition payment_policy :: "jsnum \<Rightarrow> jsnum \<Rightarrow> jsnum \<Rightarrow> jsnum \<times> rating" where
  "payment_policy onTime late dflt =
     (if js_eq (js_add (js_add onTime late) dflt) (Fin 0) then (Fin 50, Fair)
      else (policy_score onTime late dflt, policy_rating (policy_score onTime late dflt)))"

section \<open>Metrics aggregator (src/tests/private-score.ts)\<close>

datatype action = borrow | repay | deposit | withdraw | stake | unstake | swap | liquidate

record DeFiActivity =
  signature :: string
  timestamp :: jsnum
  protocol :: string
  action :: action
  amount :: jsnum
  token :: string
  successful :: bool
  onTime :: "bool option"

text \<open>
  One round of the loop over the activities. The loop state is the metrics object and the
  local \<^verbatim>\<open>totalValue\<close>. An absent \<^verbatim>\<open>onTime\<close> is falsy.
\<close>

definition processActivity :: "CreditMetrics \<times> jsnum \<Rightarrow> DeFiActivity \<Rightarrow> CreditMetrics \<times> jsnum" where
  "processActivity st activity =
     (let metrics = fst st;
          m1 = metrics\<lparr> uniqueProtocols := finsert (protocol activity) (uniqueProtocols metrics) \<rparr>;
          totalValue = js_add (snd st) (amount activity);
          m2 = (case action activity of
                  borrow \<Rightarrow> m1\<lparr> totalBorrowed := js_add (totalBorrowed m1) (amount activity) \<rparr>
                | repay \<Rightarrow>
                    (let m = m1\<lparr> totalRepaid := js_add (totalRepaid m1) (amount activity) \<rparr>
                     in if onTime activity = Some True
                        then m\<lparr> CreditMetrics.onTimePayments :=
                                  js_add (CreditMetrics.onTimePayments m) (Fin 1) \<rparr>
                        else m\<lparr> latePayments := js_add (latePayments m) (Fin 1) \<rparr>)
                | _ \<Rightarrow> m1)
      in (m2, totalValue))"

fun processActivities :: "CreditMetrics \<times> jsnum \<Rightarrow> DeFiActivity list \<Rightarrow> CreditMetrics \<times> jsnum" where
  "processActivities st [] = st"
| "processActivities st (a # as) = processActivities (processActivity st a) as"

text \<open>\<^verbatim>\<open>Math.min(...xs)\<close>: \<^verbatim>\<open>Infinity\<close> for no argument, \<^verbatim>\<open>NaN\<close> as soon as one is.\<close>

definition Math_min_list :: "jsnum list \<Rightarrow> jsnum" where
  "Math_min_list xs = foldl Math_min PInf xs"

text \<open>
  The aggregation of \<^verbatim>\<open>calculateCreditMetrics\<close>, from the activities that
  \<^verbatim>\<open>extractDeFiActivity\<close> returned; \<open>now\<close> is what \<^verbatim>\<open>Date.now()\<close> returns.
\<close>

definition initialMetrics :: "DeFiActivity list \<Rightarrow> CreditMetrics" where
  "initialMetrics activities =
     \<lparr> totalBorrowed = Fin 0, totalRepaid = Fin 0, onTimePayments = Fin 0,
       latePayments = Fin 0, defaults = Fin 0, oldestActivityDays = Fin 0,
       uniqueProtocols = {||}, averageTransactionValue = Fin 0,
       totalTransactions = Fin (of_nat (length activities)), utilizationHistory = [] \<rparr>"

definition calculateCreditMetrics :: "int \<Rightarrow> DeFiActivity list \<Rightarrow> CreditMetrics" where
  "calculateCreditMetrics now activities =
     (let metrics = initialMetrics activities
      in if length activities = 0 then metrics
         else
           let oldestTimestamp = Math_min_list (map timestamp activities);
               now_s = js_div (Fin (of_int now)) (Fin 1000);
               m1 = metrics\<lparr> oldestActivityDays :=
                      Math_floor (js_div (js_sub now_s oldestTimestamp)
                                         (js_mul (js_mul (Fin 60) (Fin 60)) (Fin 24))) \<rparr>;
               st = processActivities (m1, Fin 0) activities;
               m2 = (fst st)\<lparr> averageTransactionValue :=
                      js_div (snd st) (Fin (of_nat (length activities))) \<rparr>;
               borrowed = totalBorrowed m2;
               repaid = totalRepaid m2
           in if js_gt borrowed (Fin 0)
              then m2\<lparr> utilizationHistory :=
                        utilizationHistory m2 @ [js_div (js_sub borrowed repaid) borrowed] \<rparr>
              else m2)"

text \<open>The sum of the amounts, added from the left as the loop adds them.\<close>

definition sum_amounts :: "DeFiActivity list \<Rightarrow> jsnum" where
  "sum_amounts activities = foldl js_add (Fin 0) (map amount activities)"

section \<open>A platform to evaluate the model on\<close>

text \<open>
  The theorems below hold for every platform. To run the model on concrete inputs, this
  one decodes hex strictly (an even number of hex digits of either case), prints an
  integer in decimal and takes the identity for the digest.
\<close>

definition hexValue :: "char \<Rightarrow> nat option" where
  "hexValue c =
     (let n = of_char c :: nat
      in if 48 \<le> n \<and> n \<le> 57 then Some (n - 48)
         else if 97 \<le> n \<and> n \<le> 102 then Some (n - 87)
         else if 65 \<le> n \<and> n \<le> 70 then Some (n - 55)
         else None)"

fun hexToBytes_strict :: "string \<Rightarrow> bytes option" where
  "hexToBytes_strict [] = Some []"
| "hexToBytes_strict [c] = None"
| "hexToBytes_strict (c # d # cs) =
     (case (hexValue c, hexValue d, hexToBytes_strict cs) of
        (Some h, Some l, Some bs) \<Rightarrow> Some (of_nat (16 * h + l) # bs)
      | _ \<Rightarrow> None)"

fun decimal :: "nat \<Rightarrow> string" where
  "decimal n =
     (if n < 10 then [char_of (48 + n)] else decimal (n div 10) @ [char_of (48 + n mod 10)])"

fun numToString_sample :: "jsnum \<Rightarrow> string" where
  "numToString_sample (Fin a) =
     (if of_int \<lfloor>a\<rfloor> = a
      then (if a < 0 then ''-'' else []) @ decimal (nat \<bar>\<lfloor>a\<rfloor>\<bar>)
      else ''<fraction>'')"
| "numToString_sample PInf = ''Infinity''"
| "numToString_sample NInf = ''-Infinity''"
| "numToString_sample NaN = ''NaN''"

definition sample_platform :: platform where
  "sample_platform =
     \<lparr> sha256 = (\<lambda>bs. bs), hexToBytes = hexToBytes_strict, numToString = numToString_sample \<rparr>"

subsection \<open>Inputs the model is evaluated on\<close>

definition zeroMetrics :: CreditMetrics where
  "zeroMetrics =
     \<lparr> totalBorrowed = Fin 0, totalRepaid = Fin 0, onTimePayments = Fin 0,
       latePayments = Fin 0, defaults = Fin 0, oldestActivityDays = Fin 0,
       uniqueProtocols = {||}, averageTransactionValue = Fin 0,
       totalTransactions = Fin 0, utilizationHistory = [] \<rparr>"

definition zeroIncomeInputs :: DTIProofInputs where
  "zeroIncomeInputs =
     \<lparr> DTIProofInputs.monthlyIncome = Fin 0, DTIProofInputs.monthlyDebt = Fin 0,
       incomeSalt = ''aa'', debtSalt = ''bb'',
       incomeCommitment = ''c1'', debtCommitment = ''c2'', DTIProofInputs.maxDTI = Fin 0,
       DTIProofInputs.poolId = ''pool'', DTIProofInputs.nonce = Fin 1 \<rparr>"

definition salt32 :: string where
  "salt32 = ''000102030405060708090a0b0c0d0e0f101112131415161718191A1B1C1D1E1F''"

definition goodInputs :: ProofInputs where
  "goodInputs =
     \<lparr> ProofInputs.score = Fin 700, salt = ''ab12'', ProofInputs.commitment = ''000002bcab12'',
       minScore = Fin 650, ProofInputs.poolId = ''pool'', ProofInputs.nonce = Fin 1 \<rparr>"

definition lowScoreInputs :: ProofInputs where
  "lowScoreInputs =
     \<lparr> ProofInputs.score = Fin 600, salt = ''ab12'', ProofInputs.commitment = ''00000258ab12'',
       minScore = Fin 650, ProofInputs.poolId = ''pool'', ProofInputs.nonce = Fin 1 \<rparr>"

definition lowScoreWrongCommitmentInputs :: ProofInputs where
  "lowScoreWrongCommitmentInputs =
     \<lparr> ProofInputs.score = Fin 600, salt = ''ab12'', ProofInputs.commitment = ''00'',
       minScore = Fin 650, ProofInputs.poolId = ''pool'', ProofInputs.nonce = Fin 1 \<rparr>"

definition creditworthyInputs :: CreditworthyProofInputs where
  "creditworthyInputs =
     \<lparr> ProofInputs.score = Fin 700, salt = ''ab12'', ProofInputs.commitment = ''000002bcab12'',
       minScore = Fin 650, ProofInputs.poolId = ''pool'', ProofInputs.nonce = Fin 1,
       monthlyIncome = Fin 5000, monthlyDebt = Fin 1000, onTimePayments = Fin 19,
       totalPayments = Fin 20, maxDTI = Fin 4000, minPaymentRate = Fin 9000,
       minPaymentCount = Fin 10 \<rparr>"

definition uncheckedInputs :: CreditworthyProofInputs where
  "uncheckedInputs =
     \<lparr> ProofInputs.score = Fin 700, salt = ''ab12'', ProofInputs.commitment = ''00'',
       minScore = Fin 650, ProofInputs.poolId = ''pool'', ProofInputs.nonce = Fin 1,
       monthlyIncome = Fin 5000, monthlyDebt = Fin 1000, onTimePayments = Fin 1,
       totalPayments = Fin 1, maxDTI = Fin 4000, minPaymentRate = Fin 9000,
       minPaymentCount = Fin 10 \<rparr>"

definition fewPaymentsInputs :: PaymentHistoryProofInputs where
  "fewPaymentsInputs =
     \<lparr> PaymentHistoryProofInputs.onTimePayments = Fin 1,
       PaymentHistoryProofInputs.totalPayments = Fin 1,
       historySalt = ''ab12'', historyCommitment = ''00'',
       PaymentHistoryProofInputs.minPaymentRate = Fin 9000,
       PaymentHistoryProofInputs.minPaymentCount = Fin 10,
       PaymentHistoryProofInputs.poolId = ''pool'', PaymentHistoryProofInputs.nonce = Fin 1 \<rparr>"

definition halfLateMetrics :: CreditMetrics where
  "halfLateMetrics =
     \<lparr> totalBorrowed = Fin 0, totalRepaid = Fin 0, CreditMetrics.onTimePayments = Fin 1,
       latePayments = Fin 1, defaults = Fin 0, oldestActivityDays = Fin 0,
       uniqueProtocols = {||}, averageTransactionValue = Fin 0,
       totalTransactions = Fin 0, utilizationHistory = [] \<rparr>"

definition nanAverageMetrics :: CreditMetrics where
  "nanAverageMetrics =
     \<lparr> totalBorrowed = Fin 0, totalRepaid = Fin 0, CreditMetrics.onTimePayments = Fin 0,
       latePayments = Fin 0, defaults = Fin 0, oldestActivityDays = Fin 0,
       uniqueProtocols = {||}, averageTransactionValue = NaN,
       totalTransactions = Fin 1, utilizationHistory = [] \<rparr>"

subsection \<open>Activities the aggregator is evaluated on\<close>

definition borrowActivity :: DeFiActivity where
  "borrowActivity =
     \<lparr> signature = ''sig1'', DeFiActivity.timestamp = Fin 0, protocol = ''KAMINO'',
       action = borrow, amount = Fin 100, token = ''SOL'', successful = True, onTime = None \<rparr>"

definition repayActivity :: DeFiActivity where
  "repayActivity =
     \<lparr> signature = ''sig2'', DeFiActivity.timestamp = Fin 86400, protocol = ''KAMINO'',
       action = repay, amount = Fin 40, token = ''SOL'', successful = True,
       onTime = Some True \<rparr>"

definition nanAmountActivity :: DeFiActivity where
  "nanAmountActivity =
     \<lparr> signature = ''sig3'', DeFiActivity.timestamp = Fin 0, protocol = ''JUPITER'',
       action = swap, amount = NaN, token = ''SOL'', successful = True, onTime = None \<rparr>"

section \<open>Properties of the number model\<close>

lemma js_gt_NaN [simp]: "js_gt NaN x = False"
  by (cases x) (simp_all add: js_gt_def)

section \<open>Properties of the proof generators\<close>

text \<open>
  C10. With \<^verbatim>\<open>monthlyIncome = 0\<close> and \<^verbatim>\<open>monthlyDebt = 0\<close> the ratio \<^verbatim>\<open>(0 / 0) * 10000\<close> is
  \<^verbatim>\<open>NaN\<close> and the comparison \<^verbatim>\<open>NaN > maxDTI\<close> is false whatever \<^verbatim>\<open>maxDTI\<close> is, so
  \<^verbatim>\<open>generateDTIProof\<close> does not raise the DTI error. It returns the proof artifact of the
  circuit \<^verbatim>\<open>prove_dti_ratio\<close>, whose three elements are derived from the income 0, the debt 0
  and their sum 0.
\<close>

theorem generateDTIProof_zero_income:
  assumes "DTIProofInputs.monthlyIncome inputs = Fin 0"
    and "DTIProofInputs.monthlyDebt inputs = Fin 0"
  shows "js_mul (js_div (DTIProofInputs.monthlyDebt inputs)
                        (DTIProofInputs.monthlyIncome inputs)) (Fin 10000) = NaN
       \<and> \<not> js_gt NaN (DTIProofInputs.maxDTI inputs)
       \<and> generateDTIProof P inputs =
           Inr (serializeProofData (proofData
                  (generateProofElement P (Fin 0) (incomeSalt inputs) ''dti-a'')
                  (generateProofElement P (Fin 0) (debtSalt inputs) ''dti-b'')
                  (generateProofElement P (Fin 0) (incomeSalt inputs) ''dti-c'')
                  ''prove_dti_ratio''))"
  using assms by (simp add: generateDTIProof_def Let_def)

lemmas js_compare_defs = js_eq_def js_gt_def js_le_def js_ge_def

lemma sample_platform_fields [simp]:
  "sha256 sample_platform = (\<lambda>bs. bs)"
  "hexToBytes sample_platform = hexToBytes_strict"
  "numToString sample_platform = numToString_sample"
  by (simp_all add: sample_platform_def)

lemma hexToBytes_strict_salt32: "hexToBytes_strict salt32 \<noteq> None"
  by (simp add: salt32_def hexValue_def)

lemma char_of_48: "char_of (48::nat) = CHR ''0''"
  by code_simp

lemma sample_dti_elements:
  "generateProofElement sample_platform (Fin 0) ''aa'' ''dti-a'' = ''302d61612d6474692d61''"
  "generateProofElement sample_platform (Fin 0) ''bb'' ''dti-b'' = ''302d62622d6474692d62''"
  "generateProofElement sample_platform (Fin 0) ''aa'' ''dti-c'' = ''302d61612d6474692d63''"
  by (simp_all add: generateProofElement_def utf8_encode_def bytesToHex_def hexDigit_def
        char_of_48)

lemma sample_dti_artifact:
  "serializeProofData (proofData ''302d61612d6474692d61'' ''302d62622d6474692d62''
      ''302d61612d6474692d63'' ''prove_dti_ratio'')
   = ''7b2270695f61223a223330326436313631326436343734363932643631222c2270695f62223a223330326436323632326436343734363932643632222c2270695f63223a223330326436313631326436343734363932643633222c2270726f746f636f6c223a226e6f6972222c2263697263756974223a2270726f76655f6474695f726174696f227d''"
  by (simp add: serializeProofData_def proofData_def json_object_def json_field_def
        json_string_def utf8_encode_def bytesToHex_def hexDigit_def)

theorem generateDTIProof_zero_income_witness:
  "DTIProofInputs.monthlyIncome zeroIncomeInputs = Fin 0
   \<and> DTIProofInputs.monthlyDebt zeroIncomeInputs = Fin 0
   \<and> DTIProofInputs.maxDTI zeroIncomeInputs = Fin 0
   \<and> generateDTIProof sample_platform zeroIncomeInputs =
       Inr ''7b2270695f61223a223330326436313631326436343734363932643631222c2270695f62223a223330326436323632326436343734363932643632222c2270695f63223a223330326436313631326436343734363932643633222c2270726f746f636f6c223a226e6f6972222c2263697263756974223a2270726f76655f6474695f726174696f227d''"
proof -
  have f: "DTIProofInputs.monthlyIncome zeroIncomeInputs = Fin 0"
    "DTIProofInputs.monthlyDebt zeroIncomeInputs = Fin 0"
    "DTIProofInputs.maxDTI zeroIncomeInputs = Fin 0"
    "incomeSalt zeroIncomeInputs = ''aa''" "debtSalt zeroIncomeInputs = ''bb''"
    by (simp_all add: zeroIncomeInputs_def)
  from generateDTIProof_zero_income [OF f(1) f(2), of sample_platform]
  have "generateDTIProof sample_platform zeroIncomeInputs =
          Inr (serializeProofData (proofData
                 (generateProofElement sample_platform (Fin 0) ''aa'' ''dti-a'')
                 (generateProofElement sample_platform (Fin 0) ''bb'' ''dti-b'')
                 (generateProofElement sample_platform (Fin 0) ''aa'' ''dti-c'')
                 ''prove_dti_ratio''))"
    by (simp add: f)
  then show ?thesis
    by (simp only: f sample_dti_elements sample_dti_artifact simp_thms)
qed

text \<open>
  C3. For a score in [300, 850] and a salt the hex decoder accepts, \<^verbatim>\<open>createCommitment\<close>
  returns a commitment and \<^verbatim>\<open>verifyCommitment\<close> accepts it. \<^verbatim>\<open>verifyCommitment\<close> is a total
  function into the booleans: whenever \<^verbatim>\<open>createCommitment\<close> throws (a score out of range,
  a salt the decoder rejects) the result is \<^verbatim>\<open>false\<close>, whatever the commitment.
\<close>

theorem verifyCommitment_roundtrip:
  "(js_ge s (Fin 300) \<and> js_le s (Fin 850) \<and> hexToBytes P slt \<noteq> None
      \<longrightarrow> (\<exists>c. createCommitment P s slt = Inr c \<and> verifyCommitment P s slt c))
   \<and> (\<forall>e c. createCommitment P s slt = Inl e \<longrightarrow> verifyCommitment P s slt c = False)"
  by (cases s) (auto simp add: createCommitment_def verifyCommitment_def js_compare_defs Let_def)

theorem verifyCommitment_roundtrip_witness:
  "js_ge (Fin 700) (Fin 300) \<and> js_le (Fin 700) (Fin 850)
   \<and> hexToBytes sample_platform salt32 \<noteq> None
   \<and> (\<exists>c. createCommitment sample_platform (Fin 700) salt32 = Inr c
          \<and> verifyCommitment sample_platform (Fin 700) salt32 c)
   \<and> createCommitment sample_platform (Fin 700) ''xyz'' = Inl InvalidHex
   \<and> verifyCommitment sample_platform (Fin 700) ''xyz'' ''00'' = False"
proof -
  have h: "hexToBytes sample_platform salt32 \<noteq> None"
    using hexToBytes_strict_salt32 by simp
  have r: "js_ge (Fin 700) (Fin 300) \<and> js_le (Fin 700) (Fin 850)"
    by (simp add: js_compare_defs)
  have e: "createCommitment sample_platform (Fin 700) ''xyz'' = Inl InvalidHex"
    by (simp add: createCommitment_def js_gt_def hexValue_def Let_def)
  from verifyCommitment_roundtrip [of "Fin 700" sample_platform salt32] h r
  have "\<exists>c. createCommitment sample_platform (Fin 700) salt32 = Inr c
          \<and> verifyCommitment sample_platform (Fin 700) salt32 c" by blast
  moreover from verifyCommitment_roundtrip [of "Fin 700" sample_platform "''xyz''"] e
  have "verifyCommitment sample_platform (Fin 700) ''xyz'' ''00'' = False" by blast
  ultimately show ?thesis using h r e by blast
qed

lemma createCommitment_sample_700:
  "createCommitment sample_platform (Fin 700) ''ab12'' = Inr ''000002bcab12''"
  by (simp add: createCommitment_def js_gt_def uint32Bytes_def hexValue_def bytesToHex_def hexDigit_def Let_def)

lemma createCommitment_sample_600:
  "createCommitment sample_platform (Fin 600) ''ab12'' = Inr ''00000258ab12''"
  by (simp add: createCommitment_def js_gt_def uint32Bytes_def hexValue_def bytesToHex_def hexDigit_def Let_def)

lemma verifyCommitment_iff:
  "verifyCommitment P s slt c \<longleftrightarrow> createCommitment P s slt = Inr c"
  by (auto simp add: verifyCommitment_def split: sum.splits)

text \<open>
  C2, as the code has it. \<^verbatim>\<open>generateZKProof\<close> checks the commitment first: it fails with
  the commitment error whenever the supplied commitment is not what \<^verbatim>\<open>createCommitment\<close>
  returns for the score and the salt (also when \<^verbatim>\<open>createCommitment\<close> itself throws). When
  the commitment matches and the score is below \<^verbatim>\<open>minScore\<close>, it fails with the threshold
  error. A score below \<^verbatim>\<open>minScore\<close> always ends in an error, never in a proof.
\<close>

theorem generateZKProof_rejects:
  "(createCommitment P (ProofInputs.score inputs) (salt inputs) \<noteq> Inr (ProofInputs.commitment inputs)
      \<longrightarrow> generateZKProof P inputs = Inl CommitmentMismatch)
   \<and> (createCommitment P (ProofInputs.score inputs) (salt inputs) = Inr (ProofInputs.commitment inputs)
        \<and> js_lt (ProofInputs.score inputs) (minScore inputs)
      \<longrightarrow> generateZKProof P inputs =
            Inl (ScoreBelowThreshold (ProofInputs.score inputs) (minScore inputs)))
   \<and> (js_lt (ProofInputs.score inputs) (minScore inputs)
      \<longrightarrow> (\<exists>e. generateZKProof P inputs = Inl e))"
  by (simp add: generateZKProof_def verifyCommitment_iff)

text \<open>
  C2 as stated fails where both checks fail: the score is below the threshold, and the
  error is the commitment error, not the threshold error.
\<close>

theorem generateZKProof_rejects_counterexample:
  "js_lt (ProofInputs.score lowScoreWrongCommitmentInputs) (minScore lowScoreWrongCommitmentInputs)
   \<and> generateZKProof sample_platform lowScoreWrongCommitmentInputs = Inl CommitmentMismatch
   \<and> generateZKProof sample_platform lowScoreWrongCommitmentInputs
       \<noteq> Inl (ScoreBelowThreshold (ProofInputs.score lowScoreWrongCommitmentInputs)
                (minScore lowScoreWrongCommitmentInputs))"
  by (simp add: generateZKProof_def verifyCommitment_iff lowScoreWrongCommitmentInputs_def
        createCommitment_sample_600)

theorem generateZKProof_rejects_witness:
  "generateZKProof sample_platform lowScoreWrongCommitmentInputs = Inl CommitmentMismatch
   \<and> generateZKProof sample_platform lowScoreInputs = Inl (ScoreBelowThreshold (Fin 600) (Fin 650))"
proof -
  have a: "createCommitment sample_platform (ProofInputs.score lowScoreWrongCommitmentInputs)
             (salt lowScoreWrongCommitmentInputs)
           \<noteq> Inr (ProofInputs.commitment lowScoreWrongCommitmentInputs)"
    by (simp add: lowScoreWrongCommitmentInputs_def createCommitment_sample_600)
  have b: "createCommitment sample_platform (ProofInputs.score lowScoreInputs) (salt lowScoreInputs)
           = Inr (ProofInputs.commitment lowScoreInputs)
         \<and> js_lt (ProofInputs.score lowScoreInputs) (minScore lowScoreInputs)"
    by (simp add: lowScoreInputs_def createCommitment_sample_600)
  have c: "ProofInputs.score lowScoreInputs = Fin 600 \<and> minScore lowScoreInputs = Fin 650"
    by (simp add: lowScoreInputs_def)
  from generateZKProof_rejects [of sample_platform lowScoreWrongCommitmentInputs] a
  have "generateZKProof sample_platform lowScoreWrongCommitmentInputs = Inl CommitmentMismatch"
    by blast
  moreover from generateZKProof_rejects [of sample_platform lowScoreInputs] b c
  have "generateZKProof sample_platform lowScoreInputs = Inl (ScoreBelowThreshold (Fin 600) (Fin 650))"
    by simp
  ultimately show ?thesis by blast
qed

lemma generateCompleteProof_times:
  assumes "generateCompleteProof P now inputs = Inr p"
  shows "GeneratedProof.timestamp p = Fin (of_int now)"
    and "expiresAt p = Fin (of_int (now + 3600000))"
  using assms by (auto simp add: generateCompleteProof_def split: sum.splits)

lemma generateCreditworthyProof_times:
  assumes "generateCreditworthyProof P now inputs = Inr q"
  shows "GeneratedProof.timestamp q = Fin (of_int now)"
    and "expiresAt q = Fin (of_int (now + 3600000))"
  using assms by (auto simp add: generateCreditworthyProof_def Let_def split: if_splits)

lemma isProofExpired_at:
  "expiresAt p = Fin (of_int e) \<Longrightarrow> isProofExpired t p \<longleftrightarrow> e < t"
  by (simp add: isProofExpired_def js_gt_def)

lemma generateCreditworthyProof_accepts:
  assumes "\<not> js_lt (ProofInputs.score inputs) (minScore inputs)"
    and "\<not> js_gt (js_mul (js_div (monthlyDebt inputs) (monthlyIncome inputs)) (Fin 10000))
              (maxDTI inputs)"
    and "\<not> js_lt (js_mul (js_div (onTimePayments inputs) (totalPayments inputs)) (Fin 10000))
              (minPaymentRate inputs)"
  shows "\<exists>q. generateCreditworthyProof P now inputs = Inr q
           \<and> GeneratedProof.commitment q = ProofInputs.commitment inputs"
  using assms by (simp add: generateCreditworthyProof_def Let_def)

lemma creditworthyInputs_accepted:
  "\<exists>q. generateCreditworthyProof P now creditworthyInputs = Inr q"
  using generateCreditworthyProof_accepts [of creditworthyInputs P now]
  by (auto simp add: creditworthyInputs_def js_gt_def)

lemma uncheckedInputs_accepted:
  "\<exists>q. generateCreditworthyProof P now uncheckedInputs = Inr q
       \<and> GeneratedProof.commitment q = ''00''"
  using generateCreditworthyProof_accepts [of uncheckedInputs P now]
  by (auto simp add: uncheckedInputs_def js_gt_def)

lemma generateZKProof_accepts:
  assumes "createCommitment P (ProofInputs.score inputs) (salt inputs)
             = Inr (ProofInputs.commitment inputs)"
    and "\<not> js_lt (ProofInputs.score inputs) (minScore inputs)"
    and "\<not> js_lt (ProofInputs.score inputs) (Fin 300)"
    and "\<not> js_gt (ProofInputs.score inputs) (Fin 850)"
  shows "\<exists>prf. generateZKProof P inputs = Inr prf"
  using assms by (simp add: generateZKProof_def verifyCommitment_iff)

lemma goodInputs_accepted:
  "\<exists>p. generateCompleteProof sample_platform now goodInputs = Inr p"
proof -
  have "\<exists>prf. generateZKProof sample_platform goodInputs = Inr prf"
    by (rule generateZKProof_accepts)
       (simp_all add: goodInputs_def createCommitment_sample_700 js_gt_def)
  then show ?thesis by (auto simp add: generateCompleteProof_def)
qed

text \<open>
  C7, as the code has it. A proof artifact of \<^verbatim>\<open>generateCompleteProof\<close> and one of
  \<^verbatim>\<open>generateCreditworthyProof\<close> both carry \<open>expiresAt = timestamp + 3600000\<close> milliseconds
  (3600 seconds, the same window for the single-predicate and for the composite proof).
  \<^verbatim>\<open>isProofExpired\<close> is true iff the current time is strictly greater than \<^verbatim>\<open>expiresAt\<close>:
  false at the time of generation and up to the end of the window, true after it.
\<close>

theorem proof_expiry:
  "(generateCompleteProof P now inputs = Inr p \<longrightarrow>
      expiresAt p = js_add (GeneratedProof.timestamp p) (Fin 3600000)
      \<and> \<not> isProofExpired now p
      \<and> (\<forall>t. isProofExpired t p \<longleftrightarrow> now + 3600000 < t))
   \<and> (generateCreditworthyProof P now cinputs = Inr q \<longrightarrow>
      expiresAt q = js_add (GeneratedProof.timestamp q) (Fin 3600000)
      \<and> \<not> isProofExpired now q
      \<and> (\<forall>t. isProofExpired t q \<longleftrightarrow> now + 3600000 < t))
   \<and> (isProofExpired t prf \<longleftrightarrow> js_gt (Fin (of_int t)) (expiresAt prf))"
proof (intro conjI impI)
  assume a: "generateCompleteProof P now inputs = Inr p"
  note e = generateCompleteProof_times [OF a]
  show "expiresAt p = js_add (GeneratedProof.timestamp p) (Fin 3600000)"
    by (simp add: e)
  show "\<not> isProofExpired now p"
    by (simp add: isProofExpired_at [OF e(2)])
  show "\<forall>t. isProofExpired t p \<longleftrightarrow> now + 3600000 < t"
    by (simp add: isProofExpired_at [OF e(2)])
next
  assume a: "generateCreditworthyProof P now cinputs = Inr q"
  note e = generateCreditworthyProof_times [OF a]
  show "expiresAt q = js_add (GeneratedProof.timestamp q) (Fin 3600000)"
    by (simp add: e)
  show "\<not> isProofExpired now q"
    by (simp add: isProofExpired_at [OF e(2)])
  show "\<forall>t. isProofExpired t q \<longleftrightarrow> now + 3600000 < t"
    by (simp add: isProofExpired_at [OF e(2)])
next
  show "isProofExpired t prf \<longleftrightarrow> js_gt (Fin (of_int t)) (expiresAt prf)"
    by (simp add: isProofExpired_def)
qed

theorem proof_expiry_witness:
  "(\<exists>p. generateCompleteProof sample_platform 1000 goodInputs = Inr p
        \<and> expiresAt p = js_add (GeneratedProof.timestamp p) (Fin 3600000)
        \<and> \<not> isProofExpired 1000 p \<and> \<not> isProofExpired 3601000 p \<and> isProofExpired 3601001 p)
   \<and> (\<exists>q. generateCreditworthyProof sample_platform 1000 creditworthyInputs = Inr q
        \<and> expiresAt q = js_add (GeneratedProof.timestamp q) (Fin 3600000)
        \<and> \<not> isProofExpired 1000 q \<and> \<not> isProofExpired 3601000 q \<and> isProofExpired 3601001 q)"
proof -
  obtain p where p: "generateCompleteProof sample_platform 1000 goodInputs = Inr p"
    using goodInputs_accepted by blast
  obtain q where q: "generateCreditworthyProof sample_platform 1000 creditworthyInputs = Inr q"
    using creditworthyInputs_accepted by blast
  note r = proof_expiry [of sample_platform 1000 goodInputs p creditworthyInputs q 0 p]
  from r p have p1: "expiresAt p = js_add (GeneratedProof.timestamp p) (Fin 3600000)"
    and p2: "\<not> isProofExpired 1000 p"
    and p3: "\<forall>t. isProofExpired t p \<longleftrightarrow> 1000 + 3600000 < t"
    by blast+
  from r q have q1: "expiresAt q = js_add (GeneratedProof.timestamp q) (Fin 3600000)"
    and q2: "\<not> isProofExpired 1000 q"
    and q3: "\<forall>t. isProofExpired t q \<longleftrightarrow> 1000 + 3600000 < t"
    by blast+
  have "\<not> isProofExpired 3601000 p \<and> isProofExpired 3601001 p
        \<and> \<not> isProofExpired 3601000 q \<and> isProofExpired 3601001 q"
    by (simp add: p3 q3)
  with p q p1 p2 q1 q2 show ?thesis by blast
qed

text \<open>
  C7 as stated fails on "longer for composite": generated at the same time, the
  single-predicate proof and the composite proof expire at the same time.
\<close>

theorem composite_window_counterexample:
  "map_sum id (\<lambda>p. (GeneratedProof.timestamp p, expiresAt p))
     (generateCompleteProof sample_platform 1000 goodInputs) = Inr (Fin 1000, Fin 3601000)
   \<and> map_sum id (\<lambda>q. (GeneratedProof.timestamp q, expiresAt q))
     (generateCreditworthyProof sample_platform 1000 creditworthyInputs)
       = Inr (Fin 1000, Fin 3601000)"
proof -
  obtain p where p: "generateCompleteProof sample_platform 1000 goodInputs = Inr p"
    using goodInputs_accepted by blast
  obtain q where q: "generateCreditworthyProof sample_platform 1000 creditworthyInputs = Inr q"
    using creditworthyInputs_accepted by blast
  show ?thesis
    using generateCompleteProof_times [OF p] generateCreditworthyProof_times [OF q]
    by (simp add: p q)
qed

text \<open>
  C1 fails on the code. \<^verbatim>\<open>generateCreditworthyProof\<close> never calls \<^verbatim>\<open>verifyCommitment\<close> and
  never reads \<^verbatim>\<open>minPaymentCount\<close>: for an input whose commitment does not verify and whose
  \<^verbatim>\<open>totalPayments\<close> is below \<^verbatim>\<open>minPaymentCount\<close> it returns a proof artifact carrying that
  commitment. The single-predicate generators reject the same values:
  \<^verbatim>\<open>generateZKProof\<close> with the commitment error, \<^verbatim>\<open>generatePaymentHistoryProof\<close> with the
  payment-count error.
\<close>

theorem generateCreditworthyProof_unchecked:
  "\<not> verifyCommitment sample_platform (ProofInputs.score uncheckedInputs) (salt uncheckedInputs)
        (ProofInputs.commitment uncheckedInputs)
   \<and> js_lt (totalPayments uncheckedInputs) (minPaymentCount uncheckedInputs)
   \<and> map_sum id GeneratedProof.commitment
        (generateCreditworthyProof sample_platform 1000 uncheckedInputs) = Inr ''00''
   \<and> generateZKProof sample_platform (ProofInputs.truncate uncheckedInputs)
        = Inl CommitmentMismatch
   \<and> generatePaymentHistoryProof sample_platform fewPaymentsInputs
        = Inl (TooFewPayments (Fin 1) (Fin 10))"
proof -
  obtain q where q: "generateCreditworthyProof sample_platform 1000 uncheckedInputs = Inr q"
    and c: "GeneratedProof.commitment q = ''00''"
    using uncheckedInputs_accepted by blast
  have v: "\<not> verifyCommitment sample_platform (ProofInputs.score uncheckedInputs)
              (salt uncheckedInputs) (ProofInputs.commitment uncheckedInputs)"
    by (simp add: verifyCommitment_iff uncheckedInputs_def createCommitment_sample_700)
  have n: "js_lt (totalPayments uncheckedInputs) (minPaymentCount uncheckedInputs)"
    by (simp add: uncheckedInputs_def)
  have z: "generateZKProof sample_platform (ProofInputs.truncate uncheckedInputs)
             = Inl CommitmentMismatch"
    using v by (simp add: generateZKProof_def ProofInputs.truncate_def)
  have h: "generatePaymentHistoryProof sample_platform fewPaymentsInputs
             = Inl (TooFewPayments (Fin 1) (Fin 10))"
    by (simp add: generatePaymentHistoryProof_def fewPaymentsInputs_def Let_def)
  show ?thesis using v n z h by (simp add: q c)
qed

section \<open>Properties of the score engine\<close>

lemma component_sel [simp]:
  "ComponentScore.score (component s w r d) = s"
  "weighted (component s w r d) = js_mul (js_div s (Fin 100)) w"
  "weight (component s w r d) = w"
  "ComponentScore.rating (component s w r d) = r"
  "ComponentScore.details (component s w r d) = d"
  by (simp_all add: component_def)

text \<open>
  C5, as the code has it. The score and the rating that \<^verbatim>\<open>calculatePaymentHistoryScore\<close> of
  src/unnamed/part_000 returns are those of the specified policy: 50 rated Fair without
  payments, otherwise \<open>max(0, onTimeRate * 100 - defaults * 15 - latePayments * 5)\<close> with the
  bands at 90, 75, 60 and 40; its weight is 35 and its weighted share \<open>score / 100 * 35\<close>.
\<close>

theorem calculatePaymentHistoryScore_policy:
  "(ComponentScore.score (calculatePaymentHistoryScore P metrics),
    ComponentScore.rating (calculatePaymentHistoryScore P metrics))
     = payment_policy (CreditMetrics.onTimePayments metrics) (latePayments metrics)
         (defaults metrics)
   \<and> weight (calculatePaymentHistoryScore P metrics) = Fin 35
   \<and> weighted (calculatePaymentHistoryScore P metrics)
       = js_mul (js_div (ComponentScore.score (calculatePaymentHistoryScore P metrics)) (Fin 100))
           (Fin 35)"
  by (simp add: calculatePaymentHistoryScore_def payment_policy_def policy_score_def
        policy_rating_def Let_def WEIGHTS_paymentHistory_def)

text \<open>
  C5 as stated fails: the two functions of that name are not equal. With one payment on
  time, one late and no default, the function of src/unnamed/part_000 returns 45 rated
  Fair, and the one of src/frontend/lib/creditScore.ts returns 50 rated Poor.
\<close>

theorem calculatePaymentHistoryScore_differ_counterexample:
  "ComponentScore.score (calculatePaymentHistoryScore sample_platform halfLateMetrics) = Fin 45
   \<and> ComponentScore.rating (calculatePaymentHistoryScore sample_platform halfLateMetrics) = Fair
   \<and> ComponentScoreLib.score (calculatePaymentHistoryScore_lib halfLateMetrics) = Fin 50
   \<and> ComponentScoreLib.rating (calculatePaymentHistoryScore_lib halfLateMetrics) = Poor"
  by (simp add: calculatePaymentHistoryScore_def calculatePaymentHistoryScore_lib_def
        halfLateMetrics_def Let_def js_compare_defs js_sub_def Math_max_def)

lemma lastUpdated_calculateCreditScore:
  "lastUpdated (calculateCreditScore P now metrics) = Fin (of_int now)"
  by (simp add: calculateCreditScore_def Let_def)

text \<open>
  C8, as the code has it. Two calls of \<^verbatim>\<open>calculateCreditScore\<close> on the same metrics, at the
  clock readings \<open>t1\<close> and \<open>t2\<close>, return results that agree on every field but
  \<^verbatim>\<open>lastUpdated\<close>, which is the clock reading of each call.
\<close>

theorem calculateCreditScore_deterministic:
  "calculateCreditScore P t2 metrics
     = (calculateCreditScore P t1 metrics)\<lparr> lastUpdated := Fin (of_int t2) \<rparr>
   \<and> CreditScoreResult.score (calculateCreditScore P t2 metrics)
       = CreditScoreResult.score (calculateCreditScore P t1 metrics)
   \<and> tier (calculateCreditScore P t2 metrics) = tier (calculateCreditScore P t1 metrics)
   \<and> breakdown (calculateCreditScore P t2 metrics) = breakdown (calculateCreditScore P t1 metrics)
   \<and> recommendations (calculateCreditScore P t2 metrics)
       = recommendations (calculateCreditScore P t1 metrics)
   \<and> trend (calculateCreditScore P t2 metrics) = trend (calculateCreditScore P t1 metrics)
   \<and> lastUpdated (calculateCreditScore P t2 metrics) = Fin (of_int t2)"
  by (simp add: calculateCreditScore_def Let_def)

text \<open>
  C8 as stated fails on \<^verbatim>\<open>lastUpdated\<close>: two calls on the same metrics a millisecond apart
  return different results.
\<close>

theorem calculateCreditScore_clock_counterexample:
  "calculateCreditScore sample_platform 0 zeroMetrics
     \<noteq> calculateCreditScore sample_platform 1 zeroMetrics"
proof
  assume "calculateCreditScore sample_platform 0 zeroMetrics
            = calculateCreditScore sample_platform 1 zeroMetrics"
  then have "lastUpdated (calculateCreditScore sample_platform 0 zeroMetrics)
               = lastUpdated (calculateCreditScore sample_platform 1 zeroMetrics)"
    by simp
  then show False by (simp add: lastUpdated_calculateCreditScore)
qed

lemma breakdown_calculateCreditScore:
  "breakdown (calculateCreditScore P now metrics) = scoreBreakdown P metrics"
  by (simp add: calculateCreditScore_def Let_def)

lemma score_calculateCreditScore:
  "CreditScoreResult.score (calculateCreditScore P now metrics)
     = Math_round (Math_min (Fin 850) (Math_max (Fin 300)
         (js_add (Fin 300)
            (js_mul (js_div (totalWeighted (scoreBreakdown P metrics)) (Fin 100)) (Fin 550)))))"
  by (simp add: calculateCreditScore_def Let_def rawScore_def CREDIT_SCORE_MIN_def
        CREDIT_SCORE_MAX_def js_sub_def)

lemma tier_calculateCreditScore:
  "tier (calculateCreditScore P now metrics)
     = getTierFromScore (CreditScoreResult.score (calculateCreditScore P now metrics))"
  by (simp add: calculateCreditScore_def Let_def)

lemma scoreBreakdown_sel [simp]:
  "paymentHistory (scoreBreakdown P m) = calculatePaymentHistoryScore P m"
  "creditUtilization (scoreBreakdown P m) = calculateUtilizationScore P m"
  "accountHistory (scoreBreakdown P m) = calculateAccountHistoryScore P m"
  "protocolDiversity (scoreBreakdown P m) = calculateDiversityScore P m"
  "recentActivity (scoreBreakdown P m) = calculateActivityScore P m"
  by (simp_all add: scoreBreakdown_def)

lemma zero_payment:
  "ComponentScore.score (calculatePaymentHistoryScore P zeroMetrics) = Fin 50"
  "weighted (calculatePaymentHistoryScore P zeroMetrics) = Fin (35 / 2)"
  by (simp_all add: calculatePaymentHistoryScore_def zeroMetrics_def js_eq_def
        WEIGHTS_paymentHistory_def)

lemma zero_utilization:
  "ComponentScore.score (calculateUtilizationScore P zeroMetrics) = Fin 70"
  "weighted (calculateUtilizationScore P zeroMetrics) = Fin 21"
  by (simp_all add: calculateUtilizationScore_def zeroMetrics_def js_eq_def
        WEIGHTS_creditUtilization_def)

lemma zero_history:
  "ComponentScore.score (calculateAccountHistoryScore P zeroMetrics) = Fin 20"
  "weighted (calculateAccountHistoryScore P zeroMetrics) = Fin 3"
  by (simp_all add: calculateAccountHistoryScore_def zeroMetrics_def js_eq_def
        WEIGHTS_accountHistory_def Let_def)

lemma zero_diversity:
  "ComponentScore.score (calculateDiversityScore P zeroMetrics) = Fin 20"
  "weighted (calculateDiversityScore P zeroMetrics) = Fin 2"
  by (simp_all add: calculateDiversityScore_def zeroMetrics_def
        WEIGHTS_protocolDiversity_def Let_def)

lemma zero_activity:
  "ComponentScore.score (calculateActivityScore P zeroMetrics) = Fin 20"
  "weighted (calculateActivityScore P zeroMetrics) = Fin 2"
  by (simp_all add: calculateActivityScore_def zeroMetrics_def js_eq_def
        WEIGHTS_recentActivity_def)

lemmas zero_components = zero_payment zero_utilization zero_history zero_diversity zero_activity

lemma zero_totalWeighted:
  "totalWeighted (scoreBreakdown P zeroMetrics) = Fin (91 / 2)"
  by (simp add: totalWeighted_def zero_components)

lemma zero_score:
  "CreditScoreResult.score (calculateCreditScore P now zeroMetrics) = Fin 550"
proof -
  have "\<lfloor>(2203 / 4 :: rat)\<rfloor> = 550" by (simp add: floor_eq_iff)
  then show ?thesis
    by (simp add: score_calculateCreditScore zero_totalWeighted Math_max_def Math_min_def)
qed

text \<open>
  C4, as the code has it. For the all-zero metrics the component scores are 50, 70, 20,
  20 and 20, the weighted total is 45.5 and the score is 550 (550.25 rounded). The tier
  of 550 is Poor: the Fair tier of \<^verbatim>\<open>CREDIT_TIERS\<close> starts at 580.
\<close>

theorem calculateCreditScore_zeroMetrics:
  "ComponentScore.score (paymentHistory (breakdown (calculateCreditScore P now zeroMetrics))) = Fin 50
   \<and> ComponentScore.score (creditUtilization (breakdown (calculateCreditScore P now zeroMetrics)))
       = Fin 70
   \<and> ComponentScore.score (accountHistory (breakdown (calculateCreditScore P now zeroMetrics)))
       = Fin 20
   \<and> ComponentScore.score (protocolDiversity (breakdown (calculateCreditScore P now zeroMetrics)))
       = Fin 20
   \<and> ComponentScore.score (recentActivity (breakdown (calculateCreditScore P now zeroMetrics)))
       = Fin 20
   \<and> totalWeighted (breakdown (calculateCreditScore P now zeroMetrics)) = Fin (91 / 2)
   \<and> CreditScoreResult.score (calculateCreditScore P now zeroMetrics) = Fin 550
   \<and> tier (calculateCreditScore P now zeroMetrics) = Poor"
  by (simp add: breakdown_calculateCreditScore zero_components zero_totalWeighted zero_score
        tier_calculateCreditScore getTierFromScore_def js_ge_def js_eq_def
        CREDIT_TIERS_EXCELLENT_min_def CREDIT_TIERS_VERY_GOOD_min_def CREDIT_TIERS_GOOD_min_def
        CREDIT_TIERS_FAIR_min_def)

text \<open>
  C4 as stated fails on the tier: the all-zero metrics score 550, whose tier is Poor and
  not Fair.
\<close>

theorem zeroMetrics_tier_counterexample:
  "CreditScoreResult.score (calculateCreditScore sample_platform 0 zeroMetrics) = Fin 550
   \<and> tier (calculateCreditScore sample_platform 0 zeroMetrics) = Poor
   \<and> tier (calculateCreditScore sample_platform 0 zeroMetrics) \<noteq> Fair"
  by (simp add: zero_score tier_calculateCreditScore getTierFromScore_def js_ge_def js_eq_def
        CREDIT_TIERS_EXCELLENT_min_def CREDIT_TIERS_VERY_GOOD_min_def CREDIT_TIERS_GOOD_min_def
        CREDIT_TIERS_FAIR_min_def)

lemma js_add_NaN_right [simp]: "js_add x NaN = NaN"
  by (cases x) simp_all

lemma Math_min_NaN_right: "Math_min x NaN = NaN"
  by (simp add: Math_min_def)

lemma js_div_NaN_left: "js_div NaN x = NaN"
  by (cases x) simp_all

lemma js_ge_NaN_left: "js_ge NaN x = False"
  by (cases x) (simp_all add: js_ge_def js_eq_def)

lemma calculateActivityScore_NaN:
  assumes "averageTransactionValue m = NaN"
    and "\<not> js_eq (totalTransactions m) (Fin 0)"
  shows "ComponentScore.score (calculateActivityScore P m) = NaN"
    and "weighted (calculateActivityScore P m) = NaN"
  using assms
  by (simp_all add: calculateActivityScore_def Let_def Math_min_NaN_right js_div_NaN_left
        js_ge_NaN_left)

lemma calculateCreditScore_NaN:
  assumes "averageTransactionValue m = NaN"
    and "\<not> js_eq (totalTransactions m) (Fin 0)"
  shows "CreditScoreResult.score (calculateCreditScore P now m) = NaN"
proof -
  have "totalWeighted (scoreBreakdown P m) = NaN"
    by (simp add: totalWeighted_def calculateActivityScore_NaN [OF assms])
  then show ?thesis
    by (simp add: score_calculateCreditScore Math_max_def Math_min_def)
qed

lemma nanAmount_metrics:
  "averageTransactionValue (calculateCreditMetrics 172800000 [nanAmountActivity]) = NaN"
  "totalTransactions (calculateCreditMetrics 172800000 [nanAmountActivity]) = Fin 1"
  by (simp_all add: calculateCreditMetrics_def Let_def initialMetrics_def processActivity_def
        nanAmountActivity_def js_gt_def)

text \<open>
  C6 fails on the code. \<^verbatim>\<open>Math.max\<close>, \<^verbatim>\<open>Math.min\<close> and \<^verbatim>\<open>Math.round\<close> pass \<^verbatim>\<open>NaN\<close> on, so
  the clamp of \<^verbatim>\<open>calculateCreditScore\<close> does not catch it: for metrics with one transaction
  whose average value is \<^verbatim>\<open>NaN\<close> the score is \<^verbatim>\<open>NaN\<close>, neither at least 300 nor at most
  850. The aggregator produces such metrics from one activity whose amount is \<^verbatim>\<open>NaN\<close>.
\<close>

theorem calculateCreditScore_NaN_score:
  "CreditScoreResult.score (calculateCreditScore sample_platform 0 nanAverageMetrics) = NaN
   \<and> \<not> js_ge (CreditScoreResult.score (calculateCreditScore sample_platform 0 nanAverageMetrics))
          (Fin 300)
   \<and> \<not> js_le (CreditScoreResult.score (calculateCreditScore sample_platform 0 nanAverageMetrics))
          (Fin 850)
   \<and> averageTransactionValue (calculateCreditMetrics 172800000 [nanAmountActivity]) = NaN
   \<and> totalTransactions (calculateCreditMetrics 172800000 [nanAmountActivity]) = Fin 1
   \<and> CreditScoreResult.score
        (calculateCreditScore sample_platform 172800000
           (calculateCreditMetrics 172800000 [nanAmountActivity])) = NaN"
proof -
  have a: "CreditScoreResult.score (calculateCreditScore sample_platform 0 nanAverageMetrics) = NaN"
    by (rule calculateCreditScore_NaN) (simp_all add: nanAverageMetrics_def js_eq_def)
  have b: "CreditScoreResult.score
        (calculateCreditScore sample_platform 172800000
           (calculateCreditMetrics 172800000 [nanAmountActivity])) = NaN"
    by (rule calculateCreditScore_NaN) (simp_all add: nanAmount_metrics js_eq_def)
  show ?thesis
    by (simp add: a b nanAmount_metrics js_ge_def js_le_def js_eq_def)
qed

section \<open>Properties of the metrics aggregator\<close>

lemma processActivity_snd:
  "snd (processActivity st a) = js_add (snd st) (amount a)"
  by (simp add: processActivity_def Let_def)

lemma processActivity_kept:
  "utilizationHistory (fst (processActivity st a)) = utilizationHistory (fst st)"
  "averageTransactionValue (fst (processActivity st a)) = averageTransactionValue (fst st)"
  "totalTransactions (fst (processActivity st a)) = totalTransactions (fst st)"
  "oldestActivityDays (fst (processActivity st a)) = oldestActivityDays (fst st)"
  by (simp_all add: processActivity_def Let_def split: action.splits)

lemma processActivities_snd:
  "snd (processActivities st as) = foldl js_add (snd st) (map amount as)"
  by (induction as arbitrary: st) (simp_all add: processActivity_snd)

lemma processActivities_kept:
  "utilizationHistory (fst (processActivities st as)) = utilizationHistory (fst st)"
  "totalTransactions (fst (processActivities st as)) = totalTransactions (fst st)"
  by (induction as arbitrary: st) (simp_all add: processActivity_kept)

lemma calculateCreditMetrics_empty: "calculateCreditMetrics now [] = zeroMetrics"
  by (simp add: calculateCreditMetrics_def initialMetrics_def zeroMetrics_def)

lemma calculateCreditMetrics_average:
  assumes "activities \<noteq> []"
  shows "averageTransactionValue (calculateCreditMetrics now activities)
           = js_div (sum_amounts activities) (Fin (of_nat (length activities)))"
    and "totalTransactions (calculateCreditMetrics now activities)
           = Fin (of_nat (length activities))"
  using assms
  by (simp_all add: calculateCreditMetrics_def Let_def sum_amounts_def processActivities_snd
        processActivities_kept initialMetrics_def)

lemma calculateCreditMetrics_utilization:
  "utilizationHistory (calculateCreditMetrics now activities)
     = (if js_gt (totalBorrowed (calculateCreditMetrics now activities)) (Fin 0)
        then [js_div (js_sub (totalBorrowed (calculateCreditMetrics now activities))
                             (totalRepaid (calculateCreditMetrics now activities)))
                     (totalBorrowed (calculateCreditMetrics now activities))]
        else [])"
  by (simp add: calculateCreditMetrics_def Let_def processActivities_kept initialMetrics_def
        js_gt_def)

text \<open>
  C9. The aggregation maps no activity to the all-zero metrics. For a non-empty sequence
  \<^verbatim>\<open>averageTransactionValue\<close> is the sum of the amounts divided by \<^verbatim>\<open>totalTransactions\<close>,
  the number of activities. \<^verbatim>\<open>utilizationHistory\<close> holds the one entry
  \<open>(totalBorrowed - totalRepaid) / totalBorrowed\<close> when \<open>totalBorrowed > 0\<close> and is empty
  otherwise.
\<close>

theorem calculateCreditMetrics_aggregates:
  "calculateCreditMetrics now [] = zeroMetrics
   \<and> (activities \<noteq> [] \<longrightarrow>
        averageTransactionValue (calculateCreditMetrics now activities)
          = js_div (sum_amounts activities) (totalTransactions (calculateCreditMetrics now activities))
        \<and> totalTransactions (calculateCreditMetrics now activities)
          = Fin (of_nat (length activities)))
   \<and> utilizationHistory (calculateCreditMetrics now activities)
     = (if js_gt (totalBorrowed (calculateCreditMetrics now activities)) (Fin 0)
        then [js_div (js_sub (totalBorrowed (calculateCreditMetrics now activities))
                             (totalRepaid (calculateCreditMetrics now activities)))
                     (totalBorrowed (calculateCreditMetrics now activities))]
        else [])"
  using calculateCreditMetrics_utilization [of now activities]
  by (simp add: calculateCreditMetrics_empty calculateCreditMetrics_average)

lemma sample_aggregate:
  "totalBorrowed (calculateCreditMetrics 172800000 [borrowActivity, repayActivity]) = Fin 100"
  "totalRepaid (calculateCreditMetrics 172800000 [borrowActivity, repayActivity]) = Fin 40"
  by (simp_all add: calculateCreditMetrics_def Let_def initialMetrics_def processActivity_def
        borrowActivity_def repayActivity_def js_gt_def)

theorem calculateCreditMetrics_aggregates_witness:
  "[borrowActivity, repayActivity] \<noteq> []
   \<and> averageTransactionValue (calculateCreditMetrics 172800000 [borrowActivity, repayActivity])
       = Fin 70
   \<and> totalTransactions (calculateCreditMetrics 172800000 [borrowActivity, repayActivity]) = Fin 2
   \<and> utilizationHistory (calculateCreditMetrics 172800000 [borrowActivity, repayActivity])
       = [Fin (3 / 5)]
   \<and> utilizationHistory (calculateCreditMetrics 172800000 []) = []"
proof -
  have s: "sum_amounts [borrowActivity, repayActivity] = Fin 140"
    by (simp add: sum_amounts_def borrowActivity_def repayActivity_def)
  from calculateCreditMetrics_aggregates [of 172800000 "[borrowActivity, repayActivity]"]
  show ?thesis
    by (simp add: s sample_aggregate js_gt_def js_sub_def zeroMetrics_def)
qed

end
